theory Spec2Isabelle
  imports Complex_Main "HOL-Library.Word" "HOL-Library.Sublist"
begin

section \<open>The voice session of the studio (component VoiceAssistant)\<close>

text \<open>
  The duplex voice session lives in one React component, \<^verbatim>\<open>VoiceAssistant\<close>. Its state is
  three \<^verbatim>\<open>useState\<close> cells (\<^verbatim>\<open>isActive\<close>, \<^verbatim>\<open>isConnecting\<close>, \<^verbatim>\<open>error\<close>), the transcript
  (\<^verbatim>\<open>transcription\<close>) and seven \<^verbatim>\<open>useRef\<close> cells. The functions below follow the component's
  closures: \<^verbatim>\<open>stopSession\<close>, \<^verbatim>\<open>startSession\<close>, and the four callbacks handed to
  \<^verbatim>\<open>ai.live.connect\<close> (\<^verbatim>\<open>onopen\<close>, \<^verbatim>\<open>onmessage\<close>, \<^verbatim>\<open>onerror\<close>, \<^verbatim>\<open>onclose\<close>), plus the
  \<^verbatim>\<open>onaudioprocess\<close> callback of the capture graph. Mutation is explicit state passing; the
  objects the component only holds references to (audio contexts, the live connection,
  buffer source nodes) live in a store inside the same record, addressed by index.
\<close>

subsection \<open>Capture: float samples to 16-bit PCM\<close>

text \<open>
  \<^verbatim>\<open>int16[i] = inputData[i] * 32768\<close> stores a number into an \<^verbatim>\<open>Int16Array\<close>. The store
  applies ECMAScript's ToInt16: the number is truncated towards zero and reduced modulo
  \<open>2^16\<close> into the signed range. A sample is a finite 32-bit float, hence a rational, and
  the product with \<open>2^15\<close> is exact in double precision, so the value is modelled as a
  real number. (NaN and the infinities, which ToInt16 sends to 0, are left out.)
\<close>

definition trunc :: "real \<Rightarrow> int" where
  "trunc x = (if 0 \<le> x then \<lfloor>x\<rfloor> else \<lceil>x\<rceil>)"

definition toInt16 :: "real \<Rightarrow> 16 word" where
  "toInt16 x = word_of_int (trunc x)"

definition onaudioprocess_int16 :: "real list \<Rightarrow> 16 word list" where
  "onaudioprocess_int16 inputData = map (\<lambda>s. toInt16 (s * 32768)) inputData"

subsection \<open>Data\<close>

datatype role = User | Model

record transcription_item =
  role :: role
  ttext :: string

text \<open>
  An inbound message, as far as \<^verbatim>\<open>onmessage\<close> reads it. Every level the handler reaches
  through \<^verbatim>\<open>?.\<close> or \<^verbatim>\<open>.\<close> is optional in the message (typed \<^verbatim>\<open>any\<close>); a transcription
  object is represented by its \<^verbatim>\<open>text\<close>.
\<close>

record blob =
  data :: "string option"

record part =
  inlineData :: "blob option"

record content =
  parts :: "part list option"

record server_content =
  outputTranscription :: "string option"
  inputTranscription :: "string option"
  turnComplete :: bool
  modelTurn :: "content option"
  interrupted :: bool

record message =
  serverContent :: "server_content option"

datatype js_error = TypeError | MalformedFrame

record audio_buffer =
  duration :: real

datatype ctx_state = Running | Closed

record audio_context =
  sampleRate :: nat
  ctxState :: ctx_state
  closeCalls :: nat

text \<open>Calls on the output device, in the order they are made.\<close>

datatype device_call = Start nat real | Stop nat

text \<open>
  The component's cells, followed by the store of the objects it refers to:
  \<open>contexts\<close> (every \<^verbatim>\<open>AudioContext\<close> created, with the number of \<^verbatim>\<open>close()\<close> calls it
  received), \<open>sessions\<close> (per live connection, the number of \<^verbatim>\<open>close()\<close> calls),
  \<open>nodes\<close> (every buffer source created, with its buffer), \<open>deviceLog\<close>
  (\<^verbatim>\<open>source.start(t)\<close> and \<^verbatim>\<open>s.stop()\<close> calls), \<open>micStreams\<close> (streams obtained from
  \<^verbatim>\<open>getUserMedia\<close>), \<open>captureGraphs\<close> (script processors wired by \<^verbatim>\<open>onopen\<close>) and
  \<open>openSelectKeyCalls\<close> (calls of the key selector, \<^verbatim>\<open>window.aistudio.openSelectKey\<close>).
  \<open>sourcesRef\<close> is a JavaScript \<^verbatim>\<open>Set\<close>: a duplicate-free list in insertion order.
\<close>

record voice_assistant =
  isActive :: bool
  isConnecting :: bool
  error :: "string option"
  transcription :: "transcription_item list"
  audioContextRef :: "nat option"
  outputAudioContextRef :: "nat option"
  sessionRef :: "nat option"
  nextStartTimeRef :: real
  sourcesRef :: "nat list"
  currentInputTranscription :: string
  currentOutputTranscription :: string
  contexts :: "audio_context list"
  sessions :: "nat list"
  nodes :: "audio_buffer list"
  deviceLog :: "device_call list"
  micStreams :: nat
  captureGraphs :: nat
  openSelectKeyCalls :: nat

definition initial :: voice_assistant where
  "initial = \<lparr>isActive = False, isConnecting = False, error = None, transcription = [],
     audioContextRef = None, outputAudioContextRef = None, sessionRef = None,
     nextStartTimeRef = 0, sourcesRef = [],
     currentInputTranscription = [], currentOutputTranscription = [],
     contexts = [], sessions = [], nodes = [], deviceLog = [],
     micStreams = 0, captureGraphs = 0, openSelectKeyCalls = 0\<rparr>"

subsection \<open>stopSession\<close>

definition closeContext :: "nat \<Rightarrow> audio_context list \<Rightarrow> audio_context list" where
  "closeContext c cs =
     (if c < length cs
      then cs[c := (cs ! c)\<lparr>ctxState := Closed, closeCalls := Suc (closeCalls (cs ! c))\<rparr>]
      else cs)"

definition closeSession :: "nat \<Rightarrow> nat list \<Rightarrow> nat list" where
  "closeSession s ss = (if s < length ss then ss[s := Suc (ss ! s)] else ss)"

definition stopSession :: "voice_assistant \<Rightarrow> voice_assistant" where
  "stopSession w =
     (let w1 = (case sessionRef w of
                  None \<Rightarrow> w
                | Some s \<Rightarrow> w\<lparr>sessions := closeSession s (sessions w), sessionRef := None\<rparr>);
          w2 = (case audioContextRef w1 of
                  None \<Rightarrow> w1
                | Some c \<Rightarrow> w1\<lparr>contexts := closeContext c (contexts w1)\<rparr>);
          w3 = (case outputAudioContextRef w2 of
                  None \<Rightarrow> w2
                | Some c \<Rightarrow> w2\<lparr>contexts := closeContext c (contexts w2)\<rparr>)
      in w3\<lparr>isActive := False, isConnecting := False\<rparr>)"

subsection \<open>startSession\<close>

text \<open>
  What the browser and the remote service answer during one \<^verbatim>\<open>startSession\<close>.
  \<open>isKeySelected\<close> is the authorization signal kept by \<^verbatim>\<open>App\<close>; \<^verbatim>\<open>App\<close> passes it to
  \<^verbatim>\<open>VideoStudio\<close> only, and \<^verbatim>\<open>VoiceAssistant\<close> takes no props.
\<close>

datatype media_outcome = StreamOk | MediaError string string

datatype connect_outcome = Opened | ConnectError string

record environment =
  isKeySelected :: bool
  hasGetUserMedia :: bool
  getUserMedia :: media_outcome
  liveConnect :: connect_outcome

definition micErrorMessage :: "string \<Rightarrow> string \<Rightarrow> string" where
  "micErrorMessage name msg =
     (if name = ''NotFoundError'' \<or> name = ''DevicesNotFoundError''
      then ''No microphone detected. Please plug in a microphone and try again.''
      else if name = ''NotAllowedError'' \<or> name = ''PermissionDeniedError''
      then ''Microphone access denied. Please enable microphone permissions in your browser settings.''
      else ''Microphone error: '' @ msg)"

text \<open>The \<^verbatim>\<open>catch\<close> block of \<^verbatim>\<open>startSession\<close>, on an error with the given message.\<close>

definition catchInit :: "string \<Rightarrow> voice_assistant \<Rightarrow> voice_assistant" where
  "catchInit msg w =
     w\<lparr>isConnecting := False,
       error := Some (if msg = [] then ''Failed to start voice assistant.'' else msg)\<rparr>"

definition onopen :: "voice_assistant \<Rightarrow> voice_assistant" where
  "onopen w = w\<lparr>isConnecting := False, isActive := True, captureGraphs := Suc (captureGraphs w)\<rparr>"

definition startSession :: "environment \<Rightarrow> voice_assistant \<Rightarrow> voice_assistant" where
  "startSession env w0 =
     (let w = w0\<lparr>error := None, isConnecting := True, transcription := []\<rparr> in
      if \<not> hasGetUserMedia env
      then catchInit ''Your browser does not support audio recording.'' w
      else
        (case getUserMedia env of
           MediaError name msg \<Rightarrow> catchInit (micErrorMessage name msg) w
         | StreamOk \<Rightarrow>
             (let w1 = w\<lparr>micStreams := Suc (micStreams w)\<rparr>;
                  inputCtx = length (contexts w1);
                  outputCtx = Suc inputCtx;
                  w2 = w1\<lparr>contexts := contexts w1 @
                             [\<lparr>sampleRate = 16000, ctxState = Running, closeCalls = 0\<rparr>,
                              \<lparr>sampleRate = 24000, ctxState = Running, closeCalls = 0\<rparr>],
                          audioContextRef := Some inputCtx,
                          outputAudioContextRef := Some outputCtx\<rparr>
              in case liveConnect env of
                   ConnectError msg \<Rightarrow> catchInit msg w2
                 | Opened \<Rightarrow>
                     (let s = length (sessions w2);
                          w3 = onopen (w2\<lparr>sessions := sessions w2 @ [0]\<rparr>)
                      in w3\<lparr>sessionRef := Some s\<rparr>))))"

subsection \<open>onmessage\<close>

definition hasTurnComplete :: "message \<Rightarrow> bool" where
  "hasTurnComplete m = (case serverContent m of None \<Rightarrow> False | Some sc \<Rightarrow> turnComplete sc)"

definition hasInterrupted :: "message \<Rightarrow> bool" where
  "hasInterrupted m = (case serverContent m of None \<Rightarrow> False | Some sc \<Rightarrow> interrupted sc)"

text \<open>
  \<^verbatim>\<open>message.serverContent?.modelTurn?.parts[0]?.inlineData.data\<close>: an absent
  \<^verbatim>\<open>serverContent\<close>, \<^verbatim>\<open>modelTurn\<close> or first part short-circuits to \<^verbatim>\<open>undefined\<close>; an absent
  \<^verbatim>\<open>parts\<close> or \<^verbatim>\<open>inlineData\<close> is read through a plain \<^verbatim>\<open>.\<close> and throws a TypeError.
\<close>

definition base64Audio :: "message \<Rightarrow> js_error + string option" where
  "base64Audio m =
     (case serverContent m of
        None \<Rightarrow> Inr None
      | Some sc \<Rightarrow>
          (case modelTurn sc of
             None \<Rightarrow> Inr None
           | Some c \<Rightarrow>
               (case parts c of
                  None \<Rightarrow> Inl TypeError
                | Some ps \<Rightarrow>
                    (case ps of
                       [] \<Rightarrow> Inr None
                     | p # _ \<Rightarrow>
                         (case inlineData p of
                            None \<Rightarrow> Inl TypeError
                          | Some b \<Rightarrow> Inr (data b))))))"

text \<open>Lines 338 to 342: the output partial wins over the input partial (\<^verbatim>\<open>else if\<close>).\<close>

definition transcriptionPart :: "message \<Rightarrow> voice_assistant \<Rightarrow> voice_assistant" where
  "transcriptionPart m w =
     (case serverContent m of
        None \<Rightarrow> w
      | Some sc \<Rightarrow>
          (case outputTranscription sc of
             Some t \<Rightarrow> w\<lparr>currentOutputTranscription := currentOutputTranscription w @ t\<rparr>
           | None \<Rightarrow>
               (case inputTranscription sc of
                  Some t \<Rightarrow> w\<lparr>currentInputTranscription := currentInputTranscription w @ t\<rparr>
                | None \<Rightarrow> w)))"

text \<open>Lines 344 to 355. An empty string is falsy.\<close>

definition turnCompletePart :: "message \<Rightarrow> voice_assistant \<Rightarrow> voice_assistant" where
  "turnCompletePart m w =
     (if hasTurnComplete m
      then
        (let uTrans = currentInputTranscription w;
             mTrans = currentOutputTranscription w;
             w1 = (if uTrans \<noteq> [] \<or> mTrans \<noteq> []
                   then w\<lparr>transcription := transcription w @
                            (if uTrans \<noteq> [] then [\<lparr>role = User, ttext = uTrans\<rparr>] else []) @
                            (if mTrans \<noteq> [] then [\<lparr>role = Model, ttext = mTrans\<rparr>] else [])\<rparr>
                   else w)
         in w1\<lparr>currentInputTranscription := [], currentOutputTranscription := []\<rparr>)
      else w)"

text \<open>
  Lines 357 to 374. \<^verbatim>\<open>decodeAudioData(decode(base64Audio), outCtx, 24000, 1)\<close> comes from
  \<^verbatim>\<open>../audio-utils\<close>; it is the parameter \<open>decodeAudioData\<close>, which yields the decoded
  buffer or fails. \<open>currentTime\<close> is the output context's clock when the handler reads
  it. The cursor is raised to the clock before the decoding, so that assignment stays
  when the decoding throws. The new node is a fresh object, so adding it to the set
  appends it. The result pairs the exception that left the handler, if any, with the
  state the handler leaves behind.
\<close>

definition audioPart ::
  "(string \<Rightarrow> js_error + audio_buffer) \<Rightarrow> real \<Rightarrow> message \<Rightarrow> voice_assistant
     \<Rightarrow> js_error option \<times> voice_assistant" where
  "audioPart decodeAudioData currentTime m w =
     (case base64Audio m of
        Inl e \<Rightarrow> (Some e, w)
      | Inr None \<Rightarrow> (None, w)
      | Inr (Some b) \<Rightarrow>
          if b = [] then (None, w)
          else
            (let w1 = w\<lparr>nextStartTimeRef := max (nextStartTimeRef w) currentTime\<rparr> in
             case decodeAudioData b of
               Inl e \<Rightarrow> (Some e, w1)
             | Inr audioBuffer \<Rightarrow>
                 (let source = length (nodes w1);
                      w2 = w1\<lparr>nodes := nodes w1 @ [audioBuffer],
                              deviceLog := deviceLog w1 @ [Start source (nextStartTimeRef w1)]\<rparr>;
                      w3 = w2\<lparr>nextStartTimeRef := nextStartTimeRef w2 + duration audioBuffer\<rparr>
                  in (None, w3\<lparr>sourcesRef := sourcesRef w3 @ [source]\<rparr>))))"

text \<open>Lines 376 to 380.\<close>

definition interruptedPart :: "message \<Rightarrow> voice_assistant \<Rightarrow> voice_assistant" where
  "interruptedPart m w =
     (if hasInterrupted m
      then w\<lparr>deviceLog := deviceLog w @ map Stop (sourcesRef w),
             sourcesRef := [],
             nextStartTimeRef := 0\<rparr>
      else w)"

definition onmessage ::
  "(string \<Rightarrow> js_error + audio_buffer) \<Rightarrow> real \<Rightarrow> message \<Rightarrow> voice_assistant
     \<Rightarrow> js_error option \<times> voice_assistant" where
  "onmessage decodeAudioData currentTime m w =
     (case audioPart decodeAudioData currentTime m (turnCompletePart m (transcriptionPart m w)) of
        (Some e, w') \<Rightarrow> (Some e, w')
      | (None, w') \<Rightarrow> (None, interruptedPart m w'))"

text \<open>The \<^verbatim>\<open>ended\<close> listener of a buffer source (lines 367 to 369).\<close>

definition onended :: "nat \<Rightarrow> voice_assistant \<Rightarrow> voice_assistant" where
  "onended source w = w\<lparr>sourcesRef := removeAll source (sourcesRef w)\<rparr>"

subsection \<open>onerror and onclose\<close>

definition onerror :: "voice_assistant \<Rightarrow> voice_assistant" where
  "onerror w = stopSession (w\<lparr>error := Some ''Connection lost. Please try again.''\<rparr>)"

definition onclose :: "voice_assistant \<Rightarrow> voice_assistant" where
  "onclose w = stopSession w"

subsection \<open>A stream of inbound messages\<close>

text \<open>
  The transport calls \<^verbatim>\<open>onmessage\<close> once per message, in arrival order; each message comes
  with the clock value its handler reads. An exception leaves only the handler it was
  thrown in: the next message is handled from the state left behind.
\<close>

fun run ::
  "(string \<Rightarrow> js_error + audio_buffer) \<Rightarrow> (real \<times> message) list \<Rightarrow> voice_assistant
     \<Rightarrow> voice_assistant" where
  "run decodeAudioData [] w = w"
| "run decodeAudioData ((t, m) # ms) w = run decodeAudioData ms (snd (onmessage decodeAudioData t m w))"

subsection \<open>Messages with a single part\<close>

text \<open>The messages of the examples: each carries one part and nothing else.\<close>

abbreviation inputPartial :: "string \<Rightarrow> message" where
  "inputPartial t \<equiv>
     \<lparr>serverContent = Some \<lparr>outputTranscription = None, inputTranscription = Some t,
        turnComplete = False, modelTurn = None, interrupted = False\<rparr>\<rparr>"

abbreviation outputPartial :: "string \<Rightarrow> message" where
  "outputPartial t \<equiv>
     \<lparr>serverContent = Some \<lparr>outputTranscription = Some t, inputTranscription = None,
        turnComplete = False, modelTurn = None, interrupted = False\<rparr>\<rparr>"

abbreviation turnDone :: message where
  "turnDone \<equiv>
     \<lparr>serverContent = Some \<lparr>outputTranscription = None, inputTranscription = None,
        turnComplete = True, modelTurn = None, interrupted = False\<rparr>\<rparr>"

abbreviation audioChunk :: "string \<Rightarrow> message" where
  "audioChunk b \<equiv>
     \<lparr>serverContent = Some \<lparr>outputTranscription = None, inputTranscription = None,
        turnComplete = False,
        modelTurn = Some \<lparr>parts = Some [\<lparr>inlineData = Some \<lparr>data = Some b\<rparr>\<rparr>]\<rparr>,
        interrupted = False\<rparr>\<rparr>"

abbreviation interruption :: message where
  "interruption \<equiv>
     \<lparr>serverContent = Some \<lparr>outputTranscription = None, inputTranscription = None,
        turnComplete = False, modelTurn = None, interrupted = True\<rparr>\<rparr>"

section \<open>Properties\<close>

lemma sint_toInt16: "sint (toInt16 x) = (trunc x + 32768) mod 65536 - 32768"
  by (simp add: toInt16_def sint_sbintrunc' signed_take_bit_eq_take_bit_shift take_bit_eq_mod)

lemma trunc_in_range:
  assumes "- 1 \<le> x" "x < 1"
  shows "- 32768 \<le> trunc (x * 32768) \<and> trunc (x * 32768) \<le> 32767"
proof (cases "0 \<le> x")
  case True
  have "x * 32768 < 32768" using assms by simp
  then have "\<lfloor>x * 32768\<rfloor> < 32768" by (simp add: floor_less_iff)
  moreover have "0 \<le> \<lfloor>x * 32768\<rfloor>" using True by simp
  ultimately show ?thesis using True by (simp add: trunc_def)
next
  case False
  have "- 32768 \<le> x * 32768" using assms by simp
  then have "- 32768 \<le> \<lceil>x * 32768\<rceil>" by (simp add: le_ceiling_iff)
  moreover have "\<lceil>x * 32768\<rceil> \<le> 0" using False by (simp add: ceiling_le_iff mult_le_0_iff)
  ultimately show ?thesis using False by (simp add: trunc_def)
qed

lemma trunc_sign:
  "(0 \<le> x \<longrightarrow> 0 \<le> trunc (x * 32768)) \<and> (x \<le> 0 \<longrightarrow> trunc (x * 32768) \<le> 0)"
  by (auto simp: trunc_def ceiling_le_iff mult_le_0_iff)

lemma sint_in_range:
  assumes "- 1 \<le> x" "x < 1"
  shows "sint (toInt16 (x * 32768)) = trunc (x * 32768)"
  using trunc_in_range [OF assms] by (simp add: sint_toInt16)

subsection \<open>C5: the sample conversion wraps, it does not clamp\<close>

text \<open>
  C5, as stated, fails: the sample \<open>3/2\<close>, beyond the range, is not sent to the extreme
  \<open>32767\<close>; its product \<open>49152\<close> wraps to \<open>-16384\<close>, a negative output for a positive
  sample.
\<close>

theorem onaudioprocess_int16_no_clamp:
  "map sint (onaudioprocess_int16 [3 / 2]) = [- 16384]"
  by (simp add: onaudioprocess_int16_def sint_toInt16 trunc_def)

text \<open>
  C5, amended: the conversion keeps the length; a sample \<open>x\<close> with \<open>-1 \<le> x < 1\<close> becomes
  \<open>x * 32768\<close> truncated towards zero, with the sign of \<open>x\<close>; a sample strictly outside
  \<open>[-1, 1]\<close> is not clamped: its truncated product is reduced modulo \<open>2^16\<close> into the
  signed 16-bit range.
\<close>

theorem onaudioprocess_int16_wraps:
  "length (onaudioprocess_int16 xs) = length xs \<and>
   (\<forall>i < length xs.
      (- 1 \<le> xs ! i \<and> xs ! i < 1 \<longrightarrow>
         sint (onaudioprocess_int16 xs ! i) = trunc (xs ! i * 32768) \<and>
         (0 \<le> xs ! i \<longrightarrow> 0 \<le> sint (onaudioprocess_int16 xs ! i)) \<and>
         (xs ! i \<le> 0 \<longrightarrow> sint (onaudioprocess_int16 xs ! i) \<le> 0)) \<and>
      (xs ! i < - 1 \<or> 1 < xs ! i \<longrightarrow>
         sint (onaudioprocess_int16 xs ! i) = (trunc (xs ! i * 32768) + 32768) mod 65536 - 32768))"
proof -
  have len: "length (onaudioprocess_int16 xs) = length xs"
    by (simp add: onaudioprocess_int16_def)
  have nth: "onaudioprocess_int16 xs ! i = toInt16 (xs ! i * 32768)" if "i < length xs" for i
    using that by (simp add: onaudioprocess_int16_def)
  show ?thesis
    using len nth sint_in_range trunc_sign sint_toInt16 by simp
qed

theorem onaudioprocess_int16_wraps_witness:
  "map sint (onaudioprocess_int16 [1 / 2, - 1, 3 / 2, - 2, 0]) = [16384, - 32768, - 16384, 0, 0]"
  using onaudioprocess_int16_wraps [of "[1 / 2, - 1, 3 / 2, - 2, 0]"]
  by (simp add: onaudioprocess_int16_def sint_toInt16 trunc_def)

subsection \<open>What each part of the handler leaves alone\<close>

lemma transcriptionPart_frame:
  "isActive (transcriptionPart m w) = isActive w"
  "isConnecting (transcriptionPart m w) = isConnecting w"
  "error (transcriptionPart m w) = error w"
  "transcription (transcriptionPart m w) = transcription w"
  "audioContextRef (transcriptionPart m w) = audioContextRef w"
  "outputAudioContextRef (transcriptionPart m w) = outputAudioContextRef w"
  "sessionRef (transcriptionPart m w) = sessionRef w"
  "nextStartTimeRef (transcriptionPart m w) = nextStartTimeRef w"
  "sourcesRef (transcriptionPart m w) = sourcesRef w"
  "contexts (transcriptionPart m w) = contexts w"
  "sessions (transcriptionPart m w) = sessions w"
  "nodes (transcriptionPart m w) = nodes w"
  "deviceLog (transcriptionPart m w) = deviceLog w"
  by (simp_all add: transcriptionPart_def split: option.splits)

lemma turnCompletePart_frame:
  "isActive (turnCompletePart m w) = isActive w"
  "isConnecting (turnCompletePart m w) = isConnecting w"
  "error (turnCompletePart m w) = error w"
  "audioContextRef (turnCompletePart m w) = audioContextRef w"
  "outputAudioContextRef (turnCompletePart m w) = outputAudioContextRef w"
  "sessionRef (turnCompletePart m w) = sessionRef w"
  "nextStartTimeRef (turnCompletePart m w) = nextStartTimeRef w"
  "sourcesRef (turnCompletePart m w) = sourcesRef w"
  "contexts (turnCompletePart m w) = contexts w"
  "sessions (turnCompletePart m w) = sessions w"
  "nodes (turnCompletePart m w) = nodes w"
  "deviceLog (turnCompletePart m w) = deviceLog w"
  by (simp_all add: turnCompletePart_def Let_def)

lemma audioPart_frame:
  "isActive (snd (audioPart dec t m w)) = isActive w"
  "isConnecting (snd (audioPart dec t m w)) = isConnecting w"
  "error (snd (audioPart dec t m w)) = error w"
  "transcription (snd (audioPart dec t m w)) = transcription w"
  "audioContextRef (snd (audioPart dec t m w)) = audioContextRef w"
  "outputAudioContextRef (snd (audioPart dec t m w)) = outputAudioContextRef w"
  "sessionRef (snd (audioPart dec t m w)) = sessionRef w"
  "currentInputTranscription (snd (audioPart dec t m w)) = currentInputTranscription w"
  "currentOutputTranscription (snd (audioPart dec t m w)) = currentOutputTranscription w"
  "contexts (snd (audioPart dec t m w)) = contexts w"
  "sessions (snd (audioPart dec t m w)) = sessions w"
  by (simp_all add: audioPart_def Let_def split: sum.splits option.splits)

lemma interruptedPart_frame:
  "isActive (interruptedPart m w) = isActive w"
  "isConnecting (interruptedPart m w) = isConnecting w"
  "error (interruptedPart m w) = error w"
  "transcription (interruptedPart m w) = transcription w"
  "audioContextRef (interruptedPart m w) = audioContextRef w"
  "outputAudioContextRef (interruptedPart m w) = outputAudioContextRef w"
  "sessionRef (interruptedPart m w) = sessionRef w"
  "currentInputTranscription (interruptedPart m w) = currentInputTranscription w"
  "currentOutputTranscription (interruptedPart m w) = currentOutputTranscription w"
  "contexts (interruptedPart m w) = contexts w"
  "sessions (interruptedPart m w) = sessions w"
  "nodes (interruptedPart m w) = nodes w"
  by (simp_all add: interruptedPart_def)

lemma snd_onmessage:
  "snd (onmessage dec t m w) =
     (let r = audioPart dec t m (turnCompletePart m (transcriptionPart m w))
      in if fst r = None then interruptedPart m (snd r) else snd r)"
  by (simp add: onmessage_def Let_def split: prod.splits option.splits)

lemma fst_onmessage:
  "fst (onmessage dec t m w) = fst (audioPart dec t m (turnCompletePart m (transcriptionPart m w)))"
  by (simp add: onmessage_def split: prod.splits option.splits)

lemma onmessage_session:
  "isActive (snd (onmessage dec t m w)) = isActive w"
  "isConnecting (snd (onmessage dec t m w)) = isConnecting w"
  "error (snd (onmessage dec t m w)) = error w"
  "audioContextRef (snd (onmessage dec t m w)) = audioContextRef w"
  "outputAudioContextRef (snd (onmessage dec t m w)) = outputAudioContextRef w"
  "sessionRef (snd (onmessage dec t m w)) = sessionRef w"
  "contexts (snd (onmessage dec t m w)) = contexts w"
  "sessions (snd (onmessage dec t m w)) = sessions w"
  by (simp_all add: snd_onmessage Let_def interruptedPart_frame audioPart_frame
        turnCompletePart_frame transcriptionPart_frame)

text \<open>The audio part on a chunk that decodes.\<close>

lemma audioPart_decoded:
  assumes "base64Audio m = Inr (Some b)" "b \<noteq> []" "dec b = Inr buf"
  shows "audioPart dec t m w =
     (None, w\<lparr>nextStartTimeRef := max (nextStartTimeRef w) t + duration buf,
               nodes := nodes w @ [buf],
               deviceLog := deviceLog w @ [Start (length (nodes w)) (max (nextStartTimeRef w) t)],
               sourcesRef := sourcesRef w @ [length (nodes w)]\<rparr>)"
  using assms by (simp add: audioPart_def Let_def)

lemma audioPart_malformed:
  assumes "base64Audio m = Inr (Some b)" "b \<noteq> []" "dec b = Inl e"
  shows "audioPart dec t m w = (Some e, w\<lparr>nextStartTimeRef := max (nextStartTimeRef w) t\<rparr>)"
  using assms by (simp add: audioPart_def Let_def)

subsection \<open>C4: completing a turn\<close>

lemma turnCompletePart_turns:
  assumes "hasTurnComplete m"
  shows "transcription (turnCompletePart m w) =
           transcription w @
           (if currentInputTranscription w \<noteq> []
            then [\<lparr>role = User, ttext = currentInputTranscription w\<rparr>] else []) @
           (if currentOutputTranscription w \<noteq> []
            then [\<lparr>role = Model, ttext = currentOutputTranscription w\<rparr>] else [])"
    and "currentInputTranscription (turnCompletePart m w) = []"
    and "currentOutputTranscription (turnCompletePart m w) = []"
  using assms by (simp_all add: turnCompletePart_def Let_def)

lemma onmessage_transcript:
  "transcription (snd (onmessage dec t m w)) = transcription (turnCompletePart m (transcriptionPart m w))"
  "currentInputTranscription (snd (onmessage dec t m w)) =
     currentInputTranscription (turnCompletePart m (transcriptionPart m w))"
  "currentOutputTranscription (snd (onmessage dec t m w)) =
     currentOutputTranscription (turnCompletePart m (transcriptionPart m w))"
  by (simp_all add: snd_onmessage Let_def interruptedPart_frame audioPart_frame)

text \<open>
  C4: a turn-complete message (carrying no partial) appends to the transcript the user
  turn, if the pending input text is not empty, and then the model turn, if the pending
  output text is not empty, and clears both accumulators; with both empty it appends
  nothing. After the partials "hi" (input) and "hello" (output) the transcript is the user
  turn "hi" followed by the model turn "hello"; after the output partial "hi" alone it is
  the model turn "hi"; with no partial it is empty.
\<close>

theorem completeTurn_order:
  "(\<forall>sc. serverContent m = Some sc \<and> turnComplete sc \<and>
          outputTranscription sc = None \<and> inputTranscription sc = None \<longrightarrow>
      transcription (snd (onmessage dec t m w)) =
        transcription w @
        (if currentInputTranscription w \<noteq> []
         then [\<lparr>role = User, ttext = currentInputTranscription w\<rparr>] else []) @
        (if currentOutputTranscription w \<noteq> []
         then [\<lparr>role = Model, ttext = currentOutputTranscription w\<rparr>] else []) \<and>
      currentInputTranscription (snd (onmessage dec t m w)) = [] \<and>
      currentOutputTranscription (snd (onmessage dec t m w)) = []) \<and>
   transcription (run dec [(t1, inputPartial ''hi''), (t2, outputPartial ''hello''), (t3, turnDone)] initial) =
     [\<lparr>role = User, ttext = ''hi''\<rparr>, \<lparr>role = Model, ttext = ''hello''\<rparr>] \<and>
   transcription (run dec [(t1, outputPartial ''hi''), (t2, turnDone)] initial) =
     [\<lparr>role = Model, ttext = ''hi''\<rparr>] \<and>
   transcription (run dec [(t1, turnDone)] initial) = []"
proof -
  have general: "transcription (snd (onmessage dec t m w)) =
        transcription w @
        (if currentInputTranscription w \<noteq> []
         then [\<lparr>role = User, ttext = currentInputTranscription w\<rparr>] else []) @
        (if currentOutputTranscription w \<noteq> []
         then [\<lparr>role = Model, ttext = currentOutputTranscription w\<rparr>] else []) \<and>
      currentInputTranscription (snd (onmessage dec t m w)) = [] \<and>
      currentOutputTranscription (snd (onmessage dec t m w)) = []"
    if "serverContent m = Some sc" "turnComplete sc"
       "outputTranscription sc = None" "inputTranscription sc = None" for sc
  proof -
    have tc: "hasTurnComplete m" using that by (simp add: hasTurnComplete_def)
    have tp: "transcriptionPart m w = w" using that by (simp add: transcriptionPart_def)
    show ?thesis by (simp add: onmessage_transcript tp turnCompletePart_turns [OF tc])
  qed
  have ex1: "transcription (run dec [(t1, inputPartial ''hi''), (t2, outputPartial ''hello''), (t3, turnDone)] initial) =
     [\<lparr>role = User, ttext = ''hi''\<rparr>, \<lparr>role = Model, ttext = ''hello''\<rparr>]"
    by (simp add: onmessage_transcript transcriptionPart_def turnCompletePart_def
          hasTurnComplete_def initial_def Let_def)
  have ex2: "transcription (run dec [(t1, outputPartial ''hi''), (t2, turnDone)] initial) =
     [\<lparr>role = Model, ttext = ''hi''\<rparr>]"
    by (simp add: onmessage_transcript transcriptionPart_def turnCompletePart_def
          hasTurnComplete_def initial_def Let_def)
  have ex3: "transcription (run dec [(t1, turnDone)] initial) = []"
    by (simp add: onmessage_transcript transcriptionPart_def turnCompletePart_def
          hasTurnComplete_def initial_def Let_def)
  from general ex1 ex2 ex3 show ?thesis by blast
qed

theorem completeTurn_order_witness:
  "transcription (snd (onmessage (\<lambda>b. Inl MalformedFrame) 0 turnDone
      (initial\<lparr>currentInputTranscription := ''hi'', currentOutputTranscription := ''hello''\<rparr>))) =
     [\<lparr>role = User, ttext = ''hi''\<rparr>, \<lparr>role = Model, ttext = ''hello''\<rparr>] \<and>
   transcription (snd (onmessage (\<lambda>b. Inl MalformedFrame) 0 turnDone
      (initial\<lparr>currentOutputTranscription := ''hello''\<rparr>))) = [\<lparr>role = Model, ttext = ''hello''\<rparr>]"
  using completeTurn_order [where m = turnDone and dec = "\<lambda>b. Inl MalformedFrame" and t = 0
      and w = "initial\<lparr>currentInputTranscription := ''hi'', currentOutputTranscription := ''hello''\<rparr>"]
    completeTurn_order [where m = turnDone and dec = "\<lambda>b. Inl MalformedFrame" and t = 0
      and w = "initial\<lparr>currentOutputTranscription := ''hello''\<rparr>"]
  by (simp add: initial_def)

subsection \<open>Enqueueing\<close>

lemma onmessage_enqueue:
  assumes "base64Audio m = Inr (Some b)" "b \<noteq> []" "dec b = Inr buf" "\<not> hasInterrupted m"
  shows "fst (onmessage dec t m w) = None"
    and "deviceLog (snd (onmessage dec t m w)) =
           deviceLog w @ [Start (length (nodes w)) (max (nextStartTimeRef w) t)]"
    and "nextStartTimeRef (snd (onmessage dec t m w)) = max (nextStartTimeRef w) t + duration buf"
    and "nodes (snd (onmessage dec t m w)) = nodes w @ [buf]"
    and "sourcesRef (snd (onmessage dec t m w)) = sourcesRef w @ [length (nodes w)]"
  using assms
  by (simp_all add: snd_onmessage fst_onmessage audioPart_decoded interruptedPart_def
        turnCompletePart_frame transcriptionPart_frame)

lemma run_gapless:
  assumes "list_all2 (\<lambda>m buf. \<exists>b. base64Audio m = Inr (Some b) \<and> b \<noteq> [] \<and> dec b = Inr buf \<and>
                        0 \<le> duration buf \<and> \<not> hasInterrupted m) ms bufs"
    and "0 \<le> nextStartTimeRef w"
  shows "deviceLog (run dec (map (Pair 0) ms) w) =
           deviceLog w @
           map (\<lambda>k. Start (length (nodes w) + k)
                       (nextStartTimeRef w + sum_list (map duration (take k bufs))))
             [0..<length bufs] \<and>
         nextStartTimeRef (run dec (map (Pair 0) ms) w) =
           nextStartTimeRef w + sum_list (map duration bufs)"
  using assms
proof (induction ms bufs arbitrary: w rule: list_all2_induct)
  case Nil
  then show ?case by simp
next
  case (Cons m ms buf bufs)
  from Cons.hyps(1) obtain b where b: "base64Audio m = Inr (Some b)" "b \<noteq> []" "dec b = Inr buf"
    "0 \<le> duration buf" "\<not> hasInterrupted m" by blast
  define w' where "w' = snd (onmessage dec 0 m w)"
  have c: "max (nextStartTimeRef w) 0 = nextStartTimeRef w" using Cons.prems by simp
  have log': "deviceLog w' = deviceLog w @ [Start (length (nodes w)) (nextStartTimeRef w)]"
    and cur': "nextStartTimeRef w' = nextStartTimeRef w + duration buf"
    and nodes': "nodes w' = nodes w @ [buf]"
    using onmessage_enqueue [where dec = dec and t = 0 and w = w, OF b(1) b(2) b(3) b(5)] c by (simp_all add: w'_def)
  have "0 \<le> nextStartTimeRef w'" using cur' Cons.prems b(4) by simp
  from Cons.IH [OF this]
  have ih: "deviceLog (run dec (map (Pair 0) ms) w') =
           deviceLog w' @
           map (\<lambda>k. Start (length (nodes w') + k)
                       (nextStartTimeRef w' + sum_list (map duration (take k bufs))))
             [0..<length bufs]"
    and ihc: "nextStartTimeRef (run dec (map (Pair 0) ms) w') =
           nextStartTimeRef w' + sum_list (map duration bufs)" by simp_all
  have run: "run dec (map (Pair 0) (m # ms)) w = run dec (map (Pair 0) ms) w'"
    by (simp add: w'_def)
  show ?case
    unfolding run ih ihc log' cur' nodes'
    by (simp add: map_upt_Suc add.assoc del: upt_Suc)
qed

subsection \<open>C3: gapless scheduling\<close>

text \<open>
  C3: a message whose audio chunk decodes (and that carries no interruption) starts its
  buffer at the maximum of the cursor and the device clock and leaves the cursor at that
  start time plus the buffer's duration. Hence, from a cursor at 0, with the device clock
  staying at 0 and no interruption, the buffers of a sequence of such messages with
  non-negative durations \<open>d\<^sub>1 \<dots> d\<^sub>n\<close> are started in order, the one after the first \<open>k\<close> at
  \<open>d\<^sub>1 + \<dots> + d\<^sub>k\<close>, and the cursor ends at the sum of all durations.
\<close>

theorem gapless_scheduling:
  "(base64Audio m = Inr (Some b) \<and> b \<noteq> [] \<and> dec b = Inr buf \<and> \<not> hasInterrupted m \<longrightarrow>
      deviceLog (snd (onmessage dec now m w)) =
        deviceLog w @ [Start (length (nodes w)) (max (nextStartTimeRef w) now)] \<and>
      nextStartTimeRef (snd (onmessage dec now m w)) =
        max (nextStartTimeRef w) now + duration buf) \<and>
   (nextStartTimeRef w = 0 \<and>
    list_all2 (\<lambda>m buf. \<exists>b. base64Audio m = Inr (Some b) \<and> b \<noteq> [] \<and> dec b = Inr buf \<and>
                 0 \<le> duration buf \<and> \<not> hasInterrupted m) ms bufs \<longrightarrow>
      deviceLog (run dec (map (Pair 0) ms) w) =
        deviceLog w @
        map (\<lambda>k. Start (length (nodes w) + k) (sum_list (map duration (take k bufs))))
          [0..<length bufs] \<and>
      nextStartTimeRef (run dec (map (Pair 0) ms) w) = sum_list (map duration bufs))"
proof (intro conjI impI)
  assume a: "base64Audio m = Inr (Some b) \<and> b \<noteq> [] \<and> dec b = Inr buf \<and> \<not> hasInterrupted m"
  then show "deviceLog (snd (onmessage dec now m w)) =
        deviceLog w @ [Start (length (nodes w)) (max (nextStartTimeRef w) now)]"
    using onmessage_enqueue(2) [where dec = dec and m = m and b = b and buf = buf] by simp
  from a show "nextStartTimeRef (snd (onmessage dec now m w)) =
        max (nextStartTimeRef w) now + duration buf"
    using onmessage_enqueue(3) [where dec = dec and m = m and b = b and buf = buf] by simp
next
  assume a: "nextStartTimeRef w = 0 \<and>
    list_all2 (\<lambda>m buf. \<exists>b. base64Audio m = Inr (Some b) \<and> b \<noteq> [] \<and> dec b = Inr buf \<and>
                 0 \<le> duration buf \<and> \<not> hasInterrupted m) ms bufs"
  then have c: "0 \<le> nextStartTimeRef w" by simp
  from a have l: "list_all2 (\<lambda>m buf. \<exists>b. base64Audio m = Inr (Some b) \<and> b \<noteq> [] \<and> dec b = Inr buf \<and>
                 0 \<le> duration buf \<and> \<not> hasInterrupted m) ms bufs" by simp
  from run_gapless [OF l c] a
  show "deviceLog (run dec (map (Pair 0) ms) w) =
        deviceLog w @
        map (\<lambda>k. Start (length (nodes w) + k) (sum_list (map duration (take k bufs))))
          [0..<length bufs]" by simp
  from run_gapless [OF l c] a
  show "nextStartTimeRef (run dec (map (Pair 0) ms) w) = sum_list (map duration bufs)" by simp
qed

theorem gapless_scheduling_witness:
  "deviceLog (run (\<lambda>b. Inr \<lparr>duration = real (length b)\<rparr>)
      [(0, audioChunk ''a''), (0, audioChunk ''bcd''), (0, audioChunk ''ef'')] initial) =
     [Start 0 0, Start 1 1, Start 2 4] \<and>
   nextStartTimeRef (run (\<lambda>b. Inr \<lparr>duration = real (length b)\<rparr>)
      [(0, audioChunk ''a''), (0, audioChunk ''bcd''), (0, audioChunk ''ef'')] initial) = 6 \<and>
   deviceLog (snd (onmessage (\<lambda>b. Inr \<lparr>duration = real (length b)\<rparr>) 5 (audioChunk ''ab'')
      (initial\<lparr>nextStartTimeRef := 3\<rparr>))) = [Start 0 5]"
proof -
  let ?dec = "\<lambda>b::string. (Inr \<lparr>duration = real (length b)\<rparr> :: js_error + audio_buffer)"
  let ?ms = "[audioChunk ''a'', audioChunk ''bcd'', audioChunk ''ef'']"
  let ?bufs = "[\<lparr>duration = 1\<rparr>, \<lparr>duration = 3\<rparr>, \<lparr>duration = 2\<rparr>] :: audio_buffer list"
  have l: "list_all2 (\<lambda>m buf. \<exists>b. base64Audio m = Inr (Some b) \<and> b \<noteq> [] \<and> ?dec b = Inr buf \<and>
                 0 \<le> duration buf \<and> \<not> hasInterrupted m) ?ms ?bufs"
    by (simp add: base64Audio_def hasInterrupted_def)
  have z: "nextStartTimeRef initial = 0" by (simp add: initial_def)
  have u: "[0..<3] = [0, 1, 2]" by (simp add: upt_rec)
  have one: "base64Audio (audioChunk ''ab'') = Inr (Some ''ab'') \<and> ''ab'' \<noteq> [] \<and>
      ?dec ''ab'' = Inr \<lparr>duration = 2\<rparr> \<and> \<not> hasInterrupted (audioChunk ''ab'')"
    by (simp add: base64Audio_def hasInterrupted_def)
  from gapless_scheduling [where dec = ?dec and ms = ?ms and bufs = ?bufs and w = initial] l z u
  have a: "deviceLog (run ?dec (map (Pair 0) ?ms) initial) = [Start 0 0, Start 1 1, Start 2 4] \<and>
     nextStartTimeRef (run ?dec (map (Pair 0) ?ms) initial) = 6"
    by (simp add: initial_def)
  from gapless_scheduling [where dec = ?dec and m = "audioChunk ''ab''" and b = "''ab''"
      and buf = "\<lparr>duration = 2\<rparr>" and now = 5 and w = "initial\<lparr>nextStartTimeRef := 3\<rparr>"] one
  have b: "deviceLog (snd (onmessage ?dec 5 (audioChunk ''ab'') (initial\<lparr>nextStartTimeRef := 3\<rparr>))) =
      [Start 0 5]"
    by (simp add: initial_def)
  from a b show ?thesis by simp
qed

subsection \<open>C2: interruption resets the cursor\<close>

lemma onmessage_interrupted:
  assumes "hasInterrupted m" "fst (onmessage dec t m w) = None"
  shows "sourcesRef (snd (onmessage dec t m w)) = []"
    and "nextStartTimeRef (snd (onmessage dec t m w)) = 0"
  using assms by (simp_all add: snd_onmessage fst_onmessage Let_def interruptedPart_def)

lemma audioPart_no_chunk:
  assumes "\<not> (\<exists>b. base64Audio m = Inr (Some b) \<and> b \<noteq> [])"
  shows "snd (audioPart dec t m w) = w"
  using assms by (auto simp: audioPart_def split: sum.splits option.splits)

lemma onmessage_no_chunk:
  assumes "\<not> (\<exists>b. base64Audio m = Inr (Some b) \<and> b \<noteq> [])"
  shows "nextStartTimeRef (snd (onmessage dec t m w)) = 0 \<or>
         nextStartTimeRef (snd (onmessage dec t m w)) = nextStartTimeRef w"
  using assms
  by (simp add: snd_onmessage Let_def audioPart_no_chunk interruptedPart_def
        turnCompletePart_frame transcriptionPart_frame)

lemma run_no_chunk:
  assumes "\<forall>(t, m) \<in> set ms. \<not> (\<exists>b. base64Audio m = Inr (Some b) \<and> b \<noteq> [])"
    and "nextStartTimeRef w = 0"
  shows "nextStartTimeRef (run dec ms w) = 0"
  using assms
proof (induction ms arbitrary: w)
  case Nil
  then show ?case by simp
next
  case (Cons tm ms)
  obtain t m where tm: "tm = (t, m)" by (cases tm)
  have "\<not> (\<exists>b. base64Audio m = Inr (Some b) \<and> b \<noteq> [])" using Cons.prems(1) tm by simp
  from onmessage_no_chunk [OF this, of dec t w] Cons.prems(2)
  have "nextStartTimeRef (snd (onmessage dec t m w)) = 0" by auto
  moreover have "\<forall>(t, m) \<in> set ms. \<not> (\<exists>b. base64Audio m = Inr (Some b) \<and> b \<noteq> [])"
    using Cons.prems(1) by simp
  ultimately show ?case using Cons.IH tm by simp
qed

lemma onmessage_chunk_log:
  assumes "base64Audio m = Inr (Some b)" "b \<noteq> []" "dec b = Inr buf"
  shows "prefix (deviceLog w @ [Start (length (nodes w)) (max (nextStartTimeRef w) t)])
           (deviceLog (snd (onmessage dec t m w)))"
  using assms
  by (simp add: snd_onmessage audioPart_decoded interruptedPart_def
        turnCompletePart_frame transcriptionPart_frame)

text \<open>
  C2: after a message with the interruption signal has been handled, the set of active
  sources is empty and the cursor is 0; and the next chunk that is enqueued, whatever
  messages without an audio chunk come between, starts at the device clock read by its
  handler (the clock is never negative), not at the cursor the interruption found.
\<close>

theorem interrupt_then_enqueue:
  assumes "hasInterrupted m1" and "onmessage dec t1 m1 w = (None, w1)"
    and "\<forall>(t, m) \<in> set between. \<not> (\<exists>b. base64Audio m = Inr (Some b) \<and> b \<noteq> [])"
    and "w2 = run dec between w1"
    and "0 \<le> now" and "base64Audio m2 = Inr (Some b)" and "b \<noteq> []" and "dec b = Inr buf"
  shows "sourcesRef w1 = [] \<and> nextStartTimeRef w1 = 0 \<and>
         prefix (deviceLog w2 @ [Start (length (nodes w2)) now])
           (deviceLog (snd (onmessage dec now m2 w2)))"
proof -
  have f: "fst (onmessage dec t1 m1 w) = None" and s: "snd (onmessage dec t1 m1 w) = w1"
    using assms(2) by simp_all
  have a: "sourcesRef w1 = []" and c: "nextStartTimeRef w1 = 0"
    using onmessage_interrupted [OF assms(1) f] s by simp_all
  have "nextStartTimeRef w2 = 0"
    using run_no_chunk [OF assms(3) c] assms(4) by simp
  then have "max (nextStartTimeRef w2) now = now" using assms(5) by simp
  with onmessage_chunk_log [where dec = dec and t = now and w = w2, OF assms(6) assms(7) assms(8)]
  have "prefix (deviceLog w2 @ [Start (length (nodes w2)) now])
           (deviceLog (snd (onmessage dec now m2 w2)))" by simp
  with a c show ?thesis by simp
qed

theorem interrupt_then_enqueue_witness:
  "(let dec = (\<lambda>b. Inr \<lparr>duration = real (length b)\<rparr>);
        w = run dec [(2, audioChunk ''abcd'')] initial;
        w1 = snd (onmessage dec 3 interruption w);
        w2 = run dec [(4, outputPartial ''ok'')] w1
    in nextStartTimeRef w = 6 \<and> sourcesRef w = [0] \<and>
       sourcesRef w1 = [] \<and> nextStartTimeRef w1 = 0 \<and>
       deviceLog (snd (onmessage dec 5 (audioChunk ''ab'') w2)) = [Start 0 2, Stop 0, Start 1 5])"
proof -
  let ?dec = "\<lambda>b::string. (Inr \<lparr>duration = real (length b)\<rparr> :: js_error + audio_buffer)"
  define w where "w = run ?dec [(2, audioChunk ''abcd'')] initial"
  define w1 where "w1 = snd (onmessage ?dec 3 interruption w)"
  define w2 where "w2 = run ?dec [(4, outputPartial ''ok'')] w1"
  have w: "nextStartTimeRef w = 6 \<and> sourcesRef w = [0] \<and> deviceLog w = [Start 0 2] \<and>
      length (nodes w) = 1"
    by (simp add: w_def onmessage_enqueue [where dec = ?dec and b = "''abcd''"]
          base64Audio_def hasInterrupted_def initial_def)
  have i: "hasInterrupted interruption" by (simp add: hasInterrupted_def)
  have o: "onmessage ?dec 3 interruption w = (None, w1)"
    by (simp add: w1_def onmessage_def audioPart_def base64Audio_def split: prod.splits)
  have log1: "deviceLog w1 = [Start 0 2, Stop 0] \<and> length (nodes w1) = 1"
    using w by (simp add: w1_def snd_onmessage audioPart_def base64Audio_def interruptedPart_def
          hasInterrupted_def turnCompletePart_frame transcriptionPart_frame)
  have log2: "deviceLog w2 = [Start 0 2, Stop 0] \<and> length (nodes w2) = 1"
    using log1 by (simp add: w2_def snd_onmessage audioPart_def base64Audio_def interruptedPart_def
          hasInterrupted_def turnCompletePart_frame transcriptionPart_frame)
  have btw: "\<forall>(t, m) \<in> set [(4, outputPartial ''ok'')]. \<not> (\<exists>b. base64Audio m = Inr (Some b) \<and> b \<noteq> [])"
    by (simp add: base64Audio_def)
  have ch: "base64Audio (audioChunk ''ab'') = Inr (Some ''ab'')" by (simp add: base64Audio_def)
  have d: "?dec ''ab'' = Inr \<lparr>duration = 2\<rparr>" by simp
  from interrupt_then_enqueue [where dec = ?dec and now = 5 and ?t1.0 = 3 and w = w,
      OF i o btw w2_def _ ch _ d]
  have r: "sourcesRef w1 = [] \<and> nextStartTimeRef w1 = 0 \<and>
         prefix (deviceLog w2 @ [Start (length (nodes w2)) 5])
           (deviceLog (snd (onmessage ?dec 5 (audioChunk ''ab'') w2)))" by simp
  have len: "length (deviceLog (snd (onmessage ?dec 5 (audioChunk ''ab'') w2))) = 3"
    using log2 by (simp add: snd_onmessage audioPart_def base64Audio_def interruptedPart_def
          hasInterrupted_def turnCompletePart_frame transcriptionPart_frame Let_def)
  from r log2 len have "deviceLog (snd (onmessage ?dec 5 (audioChunk ''ab'') w2)) = [Start 0 2, Stop 0, Start 1 5]"
    by (auto simp: prefix_def)
  with r w show ?thesis by (simp add: w_def w1_def w2_def Let_def)
qed

subsection \<open>C10: the order of the parts of one message\<close>

text \<open>
  When no exception leaves the handler, a message that carries an audio chunk and the
  interruption signal has its chunk decoded and its source started at the maximum of the
  cursor and the clock, and then stopped together with every source that was active: the
  set of active sources is empty and the cursor is 0 afterwards. A partial carried by
  the same message is part of the turn that its turn-complete signal appends.
\<close>

lemma onmessage_completed:
  assumes "serverContent m = Some sc" and "interrupted sc"
    and "base64Audio m = Inr (Some b)" and "b \<noteq> []"
    and "fst (onmessage dec now m w) = None"
  shows "(\<exists>buf. dec b = Inr buf) \<and>
         sourcesRef (snd (onmessage dec now m w)) = [] \<and>
         nextStartTimeRef (snd (onmessage dec now m w)) = 0 \<and>
         deviceLog (snd (onmessage dec now m w)) =
           deviceLog w @ [Start (length (nodes w)) (max (nextStartTimeRef w) now)] @
           map Stop (sourcesRef w @ [length (nodes w)]) \<and>
         (\<forall>t. turnComplete sc \<and> outputTranscription sc = Some t \<longrightarrow>
            transcription (snd (onmessage dec now m w)) =
              transcription w @
              (if currentInputTranscription w \<noteq> []
               then [\<lparr>role = User, ttext = currentInputTranscription w\<rparr>] else []) @
              (if currentOutputTranscription w @ t \<noteq> []
               then [\<lparr>role = Model, ttext = currentOutputTranscription w @ t\<rparr>] else [])) \<and>
         (\<forall>t. turnComplete sc \<and> outputTranscription sc = None \<and>
              inputTranscription sc = Some t \<longrightarrow>
            transcription (snd (onmessage dec now m w)) =
              transcription w @
              (if currentInputTranscription w @ t \<noteq> []
               then [\<lparr>role = User, ttext = currentInputTranscription w @ t\<rparr>] else []) @
              (if currentOutputTranscription w \<noteq> []
               then [\<lparr>role = Model, ttext = currentOutputTranscription w\<rparr>] else []))"
proof -
  have i: "hasInterrupted m" using assms(1,2) by (simp add: hasInterrupted_def)
  have r: "fst (onmessage dec now m w) = None" by (rule assms(5))
  obtain buf where buf: "dec b = Inr buf"
  proof (cases "dec b")
    case (Inl e)
    then have "fst (onmessage dec now m w) = Some e"
      by (simp add: fst_onmessage audioPart_malformed [where dec = dec, OF assms(3,4)])
    with r show ?thesis by simp
  next
    case (Inr buf)
    with that show ?thesis .
  qed
  have s: "sourcesRef (snd (onmessage dec now m w)) = []"
    and c: "nextStartTimeRef (snd (onmessage dec now m w)) = 0"
    using onmessage_interrupted [OF i r] by simp_all
  have l: "deviceLog (snd (onmessage dec now m w)) =
           deviceLog w @ [Start (length (nodes w)) (max (nextStartTimeRef w) now)] @
           map Stop (sourcesRef w @ [length (nodes w)])"
    using i
    by (simp add: snd_onmessage audioPart_decoded [where dec = dec, OF assms(3,4) buf]
          interruptedPart_def turnCompletePart_frame transcriptionPart_frame)
  have t: "transcription (snd (onmessage dec now m w)) =
              transcription w @
              (if currentInputTranscription w \<noteq> []
               then [\<lparr>role = User, ttext = currentInputTranscription w\<rparr>] else []) @
              (if currentOutputTranscription w @ t \<noteq> []
               then [\<lparr>role = Model, ttext = currentOutputTranscription w @ t\<rparr>] else [])"
    if "turnComplete sc" "outputTranscription sc = Some t" for t
  proof -
    have tc: "hasTurnComplete m" using assms(1) that by (simp add: hasTurnComplete_def)
    have tp: "transcriptionPart m w = w\<lparr>currentOutputTranscription := currentOutputTranscription w @ t\<rparr>"
      using assms(1) that by (simp add: transcriptionPart_def)
    show ?thesis
      by (simp add: onmessage_transcript turnCompletePart_turns [OF tc] tp)
  qed
  have u: "transcription (snd (onmessage dec now m w)) =
              transcription w @
              (if currentInputTranscription w @ t \<noteq> []
               then [\<lparr>role = User, ttext = currentInputTranscription w @ t\<rparr>] else []) @
              (if currentOutputTranscription w \<noteq> []
               then [\<lparr>role = Model, ttext = currentOutputTranscription w\<rparr>] else [])"
    if "turnComplete sc" "outputTranscription sc = None" "inputTranscription sc = Some t" for t
  proof -
    have tc: "hasTurnComplete m" using assms(1) that by (simp add: hasTurnComplete_def)
    have tp: "transcriptionPart m w = w\<lparr>currentInputTranscription := currentInputTranscription w @ t\<rparr>"
      using assms(1) that by (simp add: transcriptionPart_def)
    show ?thesis
      by (simp add: onmessage_transcript turnCompletePart_turns [OF tc] tp)
  qed
  from buf s c l t u show ?thesis by blast
qed

text \<open>
  C10 at its failing input: one chunk has been enqueued (source 0 is active, the cursor is
  at 2), then a message arrives at clock 1 with the interruption signal and a chunk that
  fails to decode. The handler has no \<^verbatim>\<open>try\<close>: the exception leaves it after the audio
  block and before the interruption block, so source 0 is not stopped, the set of active
  sources is still \<open>[0]\<close> and the cursor is not reset. The same happens when the first
  part of the model turn has no \<^verbatim>\<open>inlineData\<close> and reading \<^verbatim>\<open>.data\<close> throws a TypeError. With
  a chunk that decodes, the same message starts source 1 and then stops sources 0 and 1.
\<close>

theorem interruption_skipped_when_audio_part_throws:
  "sourcesRef (run (\<lambda>b. if even (length b) then Inr \<lparr>duration = real (length b) / 2\<rparr>
                        else Inl MalformedFrame)
      [(0, audioChunk ''abcd'')] initial) = [0] \<and>
   onmessage (\<lambda>b. if even (length b) then Inr \<lparr>duration = real (length b) / 2\<rparr>
                  else Inl MalformedFrame) 1
     \<lparr>serverContent = Some \<lparr>outputTranscription = None, inputTranscription = None,
        turnComplete = False,
        modelTurn = Some \<lparr>parts = Some [\<lparr>inlineData = Some \<lparr>data = Some ''abc''\<rparr>\<rparr>]\<rparr>,
        interrupted = True\<rparr>\<rparr>
     (run (\<lambda>b. if even (length b) then Inr \<lparr>duration = real (length b) / 2\<rparr>
                else Inl MalformedFrame)
        [(0, audioChunk ''abcd'')] initial) =
   (Some MalformedFrame,
    initial\<lparr>nextStartTimeRef := 2, sourcesRef := [0], nodes := [\<lparr>duration = 2\<rparr>],
      deviceLog := [Start 0 0]\<rparr>) \<and>
   onmessage (\<lambda>b. if even (length b) then Inr \<lparr>duration = real (length b) / 2\<rparr>
                  else Inl MalformedFrame) 1
     \<lparr>serverContent = Some \<lparr>outputTranscription = None, inputTranscription = None,
        turnComplete = False,
        modelTurn = Some \<lparr>parts = Some [\<lparr>inlineData = None\<rparr>]\<rparr>,
        interrupted = True\<rparr>\<rparr>
     (run (\<lambda>b. if even (length b) then Inr \<lparr>duration = real (length b) / 2\<rparr>
                else Inl MalformedFrame)
        [(0, audioChunk ''abcd'')] initial) =
   (Some TypeError,
    initial\<lparr>nextStartTimeRef := 2, sourcesRef := [0], nodes := [\<lparr>duration = 2\<rparr>],
      deviceLog := [Start 0 0]\<rparr>) \<and>
   onmessage (\<lambda>b. if even (length b) then Inr \<lparr>duration = real (length b) / 2\<rparr>
                  else Inl MalformedFrame) 1
     \<lparr>serverContent = Some \<lparr>outputTranscription = None, inputTranscription = None,
        turnComplete = False,
        modelTurn = Some \<lparr>parts = Some [\<lparr>inlineData = Some \<lparr>data = Some ''ab''\<rparr>\<rparr>]\<rparr>,
        interrupted = True\<rparr>\<rparr>
     (run (\<lambda>b. if even (length b) then Inr \<lparr>duration = real (length b) / 2\<rparr>
                else Inl MalformedFrame)
        [(0, audioChunk ''abcd'')] initial) =
   (None,
    initial\<lparr>nextStartTimeRef := 0, sourcesRef := [], nodes := [\<lparr>duration = 2\<rparr>, \<lparr>duration = 1\<rparr>],
      deviceLog := [Start 0 0, Start 1 2, Stop 0, Stop 1]\<rparr>)"
  by (simp add: onmessage_def audioPart_def base64Audio_def interruptedPart_def
        turnCompletePart_def transcriptionPart_def hasTurnComplete_def hasInterrupted_def
        initial_def Let_def)

subsection \<open>C6: a chunk that fails to decode\<close>

lemma run_session:
  "isActive (run dec evs w) = isActive w \<and> isConnecting (run dec evs w) = isConnecting w \<and>
   error (run dec evs w) = error w \<and> sessionRef (run dec evs w) = sessionRef w \<and>
   audioContextRef (run dec evs w) = audioContextRef w \<and>
   outputAudioContextRef (run dec evs w) = outputAudioContextRef w \<and>
   contexts (run dec evs w) = contexts w \<and> sessions (run dec evs w) = sessions w"
proof (induction evs arbitrary: w)
  case Nil
  show ?case by simp
next
  case (Cons e evs)
  obtain t m where e: "e = (t, m)" by (cases e)
  show ?case using Cons.IH [of "snd (onmessage dec t m w)"] by (simp add: e onmessage_session)
qed

lemma onmessage_malformed:
  assumes "base64Audio m = Inr (Some b)" "b \<noteq> []" "dec b = Inl e"
  shows "fst (onmessage dec t m w) = Some e"
    and "nodes (snd (onmessage dec t m w)) = nodes w"
    and "deviceLog (snd (onmessage dec t m w)) = deviceLog w"
    and "sourcesRef (snd (onmessage dec t m w)) = sourcesRef w"
    and "nextStartTimeRef (snd (onmessage dec t m w)) = max (nextStartTimeRef w) t"
  by (simp_all add: snd_onmessage fst_onmessage audioPart_malformed [where dec = dec, OF assms]
        turnCompletePart_frame transcriptionPart_frame)

text \<open>
  C6: when the chunk of a message fails to decode (with \<open>MalformedFrame\<close> or any other
  error), the exception leaves the handler and nothing else happens: no source is created or started, the set of active sources is
  unchanged, and the session cells (active, connecting, error, connection, contexts) are
  as before. The messages that follow are handled as usual, whatever they are the session
  is still active with its connection and contexts untouched, and a later chunk that
  decodes is started at the maximum of the cursor and the clock values read so far.
\<close>

theorem malformed_frame_dropped:
  assumes "base64Audio m = Inr (Some b)" and "b \<noteq> []" and "dec b = Inl e"
  shows "fst (onmessage dec t m w) = Some e \<and>
         isActive (snd (onmessage dec t m w)) = isActive w \<and>
         isConnecting (snd (onmessage dec t m w)) = isConnecting w \<and>
         error (snd (onmessage dec t m w)) = error w \<and>
         sessionRef (snd (onmessage dec t m w)) = sessionRef w \<and>
         contexts (snd (onmessage dec t m w)) = contexts w \<and>
         sessions (snd (onmessage dec t m w)) = sessions w \<and>
         nodes (snd (onmessage dec t m w)) = nodes w \<and>
         deviceLog (snd (onmessage dec t m w)) = deviceLog w \<and>
         sourcesRef (snd (onmessage dec t m w)) = sourcesRef w \<and>
         isActive (run dec ((t, m) # rest) w) = isActive w \<and>
         sessionRef (run dec ((t, m) # rest) w) = sessionRef w \<and>
         contexts (run dec ((t, m) # rest) w) = contexts w \<and>
         sessions (run dec ((t, m) # rest) w) = sessions w \<and>
         (\<forall>m2 b2 buf2 t2.
            base64Audio m2 = Inr (Some b2) \<and> b2 \<noteq> [] \<and> dec b2 = Inr buf2 \<longrightarrow>
            prefix (deviceLog w @ [Start (length (nodes w)) (max (max (nextStartTimeRef w) t) t2)])
              (deviceLog (run dec [(t, m), (t2, m2)] w)))"
proof -
  let ?w' = "snd (onmessage dec t m w)"
  note mal = onmessage_malformed [where dec = dec and t = t and w = w, OF assms]
  have later: "prefix (deviceLog w @ [Start (length (nodes w)) (max (max (nextStartTimeRef w) t) t2)])
              (deviceLog (run dec [(t, m), (t2, m2)] w))"
    if "base64Audio m2 = Inr (Some b2)" "b2 \<noteq> []" "dec b2 = Inr buf2" for m2 b2 buf2 t2
    using onmessage_chunk_log [where dec = dec and t = t2 and w = ?w', OF that] mal
    by simp
  show ?thesis
    using mal later run_session [of dec "(t, m) # rest" w]
    by (simp add: onmessage_session)
qed

theorem malformed_frame_dropped_witness:
  "(let dec = (\<lambda>b. if even (length b) then Inr \<lparr>duration = real (length b) / 2\<rparr>
                      else Inl MalformedFrame);
        w = initial\<lparr>isActive := True, sessionRef := Some 0, sessions := [0]\<rparr>
    in fst (onmessage dec 1 (audioChunk ''abc'') w) = Some MalformedFrame \<and>
       deviceLog (snd (onmessage dec 1 (audioChunk ''abc'') w)) = [] \<and>
       isActive (run dec [(1, audioChunk ''abc''), (2, audioChunk ''abcd'')] w) \<and>
       sessions (run dec [(1, audioChunk ''abc''), (2, audioChunk ''abcd'')] w) = [0] \<and>
       prefix [Start 0 2] (deviceLog (run dec [(1, audioChunk ''abc''), (2, audioChunk ''abcd'')] w)))"
proof -
  let ?dec = "\<lambda>b::string. (if even (length b) then Inr \<lparr>duration = real (length b) / 2\<rparr>
                      else Inl MalformedFrame :: js_error + audio_buffer)"
  let ?w = "initial\<lparr>isActive := True, sessionRef := Some 0, sessions := [0]\<rparr>"
  have a: "base64Audio (audioChunk ''abc'') = Inr (Some ''abc'')" by (simp add: base64Audio_def)
  have d: "?dec ''abc'' = Inl MalformedFrame" by simp
  have a2: "base64Audio (audioChunk ''abcd'') = Inr (Some ''abcd'') \<and> ''abcd'' \<noteq> [] \<and>
      ?dec ''abcd'' = Inr \<lparr>duration = 2\<rparr>" by (simp add: base64Audio_def)
  have nb: "''abc'' \<noteq> []" by simp
  note th = malformed_frame_dropped [where dec = ?dec and t = 1 and w = ?w
      and rest = "[(2, audioChunk ''abcd'')]", OF a nb d]
  from th have "\<forall>m2 b2 buf2 t2.
            base64Audio m2 = Inr (Some b2) \<and> b2 \<noteq> [] \<and> ?dec b2 = Inr buf2 \<longrightarrow>
            prefix (deviceLog ?w @ [Start (length (nodes ?w)) (max (max (nextStartTimeRef ?w) 1) t2)])
              (deviceLog (run ?dec [(1, audioChunk ''abc''), (t2, m2)] ?w))"
    by (elim conjE)
  from this [rule_format, of "audioChunk ''abcd''" "''abcd''" "\<lparr>duration = 2\<rparr>" 2] a2
  have p: "prefix [Start 0 2] (deviceLog (run ?dec [(1, audioChunk ''abc''), (2, audioChunk ''abcd'')] ?w))"
    by (simp add: initial_def)
  from th p show ?thesis
    by (simp add: initial_def Let_def)
qed

subsection \<open>C9: the transcript grows, except that a new session empties it\<close>

lemma prefix_turnCompletePart: "prefix (transcription w) (transcription (turnCompletePart m w))"
  by (simp add: turnCompletePart_def Let_def)

text \<open>
  C9, as stated, fails: \<^verbatim>\<open>startSession\<close> begins with \<^verbatim>\<open>setTranscription([])\<close>, so a turn
  finalized in an earlier session is gone after the start of the next one.
\<close>

theorem transcript_reset_on_start:
  "transcription (startSession
      \<lparr>isKeySelected = True, hasGetUserMedia = True, getUserMedia = StreamOk, liveConnect = Opened\<rparr>
      (initial\<lparr>transcription := [\<lparr>role = User, ttext = ''hi''\<rparr>]\<rparr>)) = []"
  by (simp add: startSession_def Let_def onopen_def initial_def)

text \<open>
  C9, amended: within a session the transcript is append-only. Handling a message, or any
  sequence of messages, keeps the earlier transcript as a prefix; \<^verbatim>\<open>stopSession\<close>, the
  error and close callbacks and the end of a buffer leave it unchanged. \<^verbatim>\<open>startSession\<close>
  resets it to the empty transcript.
\<close>

theorem transcript_append_only:
  "prefix (transcription w) (transcription (snd (onmessage dec t m w))) \<and>
   prefix (transcription w) (transcription (run dec evs w)) \<and>
   transcription (stopSession w) = transcription w \<and>
   transcription (onerror w) = transcription w \<and>
   transcription (onclose w) = transcription w \<and>
   transcription (onended source w) = transcription w \<and>
   transcription (startSession env w) = []"
proof -
  have one: "prefix (transcription w) (transcription (snd (onmessage dec t m w)))" for t m w
  proof -
    have "prefix (transcription (transcriptionPart m w))
            (transcription (turnCompletePart m (transcriptionPart m w)))"
      by (rule prefix_turnCompletePart)
    then show ?thesis by (simp add: onmessage_transcript transcriptionPart_frame)
  qed
  have many: "prefix (transcription w) (transcription (run dec evs w))"
  proof (induction evs arbitrary: w)
    case Nil
    show ?case by simp
  next
    case (Cons e evs)
    obtain t m where e: "e = (t, m)" by (cases e)
    have "prefix (transcription w) (transcription (snd (onmessage dec t m w)))" by (rule one)
    also have "prefix \<dots> (transcription (run dec evs (snd (onmessage dec t m w))))" by (rule Cons.IH)
    finally show ?case by (simp add: e)
  qed
  have stop: "transcription (stopSession w) = transcription w" for w
    by (simp add: stopSession_def Let_def split: option.splits)
  have start: "transcription (startSession env w) = []"
    by (simp add: startSession_def Let_def onopen_def catchInit_def
          split: media_outcome.splits connect_outcome.splits)
  show ?thesis
    using one many stop start by (simp add: onerror_def onclose_def onended_def)
qed

theorem transcript_append_only_witness:
  "prefix [\<lparr>role = User, ttext = ''hi''\<rparr>]
     (transcription (snd (onmessage (\<lambda>b. Inl MalformedFrame) 0 turnDone
        (initial\<lparr>transcription := [\<lparr>role = User, ttext = ''hi''\<rparr>],
                 currentOutputTranscription := ''hello''\<rparr>)))) \<and>
   transcription (stopSession (initial\<lparr>transcription := [\<lparr>role = User, ttext = ''hi''\<rparr>]\<rparr>)) =
     [\<lparr>role = User, ttext = ''hi''\<rparr>]"
  using transcript_append_only [where dec = "\<lambda>b. Inl MalformedFrame" and t = 0 and m = turnDone
      and w = "initial\<lparr>transcription := [\<lparr>role = User, ttext = ''hi''\<rparr>],
                 currentOutputTranscription := ''hello''\<rparr>"]
    transcript_append_only [where w = "initial\<lparr>transcription := [\<lparr>role = User, ttext = ''hi''\<rparr>]\<rparr>"]
  by (simp add: initial_def)

subsection \<open>C1: startSession has no authorization gate\<close>

text \<open>
  C1, as stated, fails: \<^verbatim>\<open>startSession\<close> never reads the authorization signal. With the
  key not selected, a microphone and a service that answer, the session becomes active,
  the microphone stream is acquired, the capture graph is wired and the key selector is
  not called.
\<close>

theorem startSession_unauthorized:
  "isActive (startSession \<lparr>isKeySelected = False, hasGetUserMedia = True,
      getUserMedia = StreamOk, liveConnect = Opened\<rparr> initial) \<and>
   micStreams (startSession \<lparr>isKeySelected = False, hasGetUserMedia = True,
      getUserMedia = StreamOk, liveConnect = Opened\<rparr> initial) = 1 \<and>
   captureGraphs (startSession \<lparr>isKeySelected = False, hasGetUserMedia = True,
      getUserMedia = StreamOk, liveConnect = Opened\<rparr> initial) = 1 \<and>
   openSelectKeyCalls (startSession \<lparr>isKeySelected = False, hasGetUserMedia = True,
      getUserMedia = StreamOk, liveConnect = Opened\<rparr> initial) = 0"
  by (simp add: startSession_def Let_def onopen_def initial_def)

lemma startSession_opened:
  assumes "hasGetUserMedia env" "getUserMedia env = StreamOk" "liveConnect env = Opened"
  shows "startSession env w =
     w\<lparr>error := None, isConnecting := False, isActive := True, transcription := [],
       micStreams := Suc (micStreams w),
       contexts := contexts w @
          [\<lparr>sampleRate = 16000, ctxState = Running, closeCalls = 0\<rparr>,
           \<lparr>sampleRate = 24000, ctxState = Running, closeCalls = 0\<rparr>],
       audioContextRef := Some (length (contexts w)),
       outputAudioContextRef := Some (Suc (length (contexts w))),
       sessions := sessions w @ [0],
       captureGraphs := Suc (captureGraphs w),
       sessionRef := Some (length (sessions w))\<rparr>"
  using assms by (simp add: startSession_def Let_def onopen_def)

text \<open>
  C1, amended: the result of \<^verbatim>\<open>startSession\<close> does not depend on the authorization signal,
  and \<^verbatim>\<open>startSession\<close> never calls the key selector. Whenever \<^verbatim>\<open>getUserMedia\<close> exists and
  grants a stream, the microphone is acquired; if the connection then opens, the session
  is active, no longer connecting, without error, and the capture graph is wired.
\<close>

theorem startSession_ignores_authorization:
  "startSession (env\<lparr>isKeySelected := a\<rparr>) w = startSession env w \<and>
   openSelectKeyCalls (startSession env w) = openSelectKeyCalls w \<and>
   (hasGetUserMedia env \<and> getUserMedia env = StreamOk \<longrightarrow>
      micStreams (startSession env w) = Suc (micStreams w)) \<and>
   (hasGetUserMedia env \<and> getUserMedia env = StreamOk \<and> liveConnect env = Opened \<longrightarrow>
      isActive (startSession env w) \<and> \<not> isConnecting (startSession env w) \<and>
      error (startSession env w) = None \<and>
      captureGraphs (startSession env w) = Suc (captureGraphs w))"
proof -
  have a: "startSession (env\<lparr>isKeySelected := a\<rparr>) w = startSession env w"
    by (simp add: startSession_def Let_def split: media_outcome.splits connect_outcome.splits)
  have k: "openSelectKeyCalls (startSession env w) = openSelectKeyCalls w"
    by (simp add: startSession_def Let_def onopen_def catchInit_def
          split: media_outcome.splits connect_outcome.splits)
  have m: "micStreams (startSession env w) = Suc (micStreams w)"
    if "hasGetUserMedia env" "getUserMedia env = StreamOk"
    using that by (simp add: startSession_def Let_def onopen_def catchInit_def
          split: connect_outcome.splits)
  show ?thesis using a k m by (simp add: startSession_opened)
qed

theorem startSession_ignores_authorization_witness:
  "startSession \<lparr>isKeySelected = False, hasGetUserMedia = True,
      getUserMedia = StreamOk, liveConnect = Opened\<rparr> initial =
   startSession \<lparr>isKeySelected = True, hasGetUserMedia = True,
      getUserMedia = StreamOk, liveConnect = Opened\<rparr> initial \<and>
   micStreams (startSession \<lparr>isKeySelected = True, hasGetUserMedia = True,
      getUserMedia = StreamOk, liveConnect = Opened\<rparr> initial) = 1 \<and>
   isActive (startSession \<lparr>isKeySelected = True, hasGetUserMedia = True,
      getUserMedia = StreamOk, liveConnect = Opened\<rparr> initial)"
  using startSession_ignores_authorization [where a = False and w = initial
      and env = "\<lparr>isKeySelected = True, hasGetUserMedia = True,
      getUserMedia = StreamOk, liveConnect = Opened\<rparr>"]
  by (simp add: initial_def)

subsection \<open>C7: stopping twice\<close>

text \<open>
  C7 at its failing input: a session is started and becomes active, then \<^verbatim>\<open>stopSession\<close>
  runs twice. The first call closes the connection and both audio contexts once. The
  second call finds the session reference cleared, so the connection is not closed
  again, but the context references were never cleared: both contexts receive a second
  \<^verbatim>\<open>close()\<close>. Before any start, \<^verbatim>\<open>stopSession\<close> changes nothing.
\<close>

theorem stopSession_twice:
  "map closeCalls (contexts (stopSession (startSession \<lparr>isKeySelected = True,
      hasGetUserMedia = True, getUserMedia = StreamOk, liveConnect = Opened\<rparr> initial))) = [1, 1] \<and>
   sessions (stopSession (startSession \<lparr>isKeySelected = True,
      hasGetUserMedia = True, getUserMedia = StreamOk, liveConnect = Opened\<rparr> initial)) = [1] \<and>
   map closeCalls (contexts (stopSession (stopSession (startSession \<lparr>isKeySelected = True,
      hasGetUserMedia = True, getUserMedia = StreamOk, liveConnect = Opened\<rparr> initial)))) = [2, 2] \<and>
   sessions (stopSession (stopSession (startSession \<lparr>isKeySelected = True,
      hasGetUserMedia = True, getUserMedia = StreamOk, liveConnect = Opened\<rparr> initial))) = [1] \<and>
   stopSession initial = initial"
  by (simp add: startSession_opened stopSession_def closeContext_def closeSession_def
        Let_def initial_def)

subsection \<open>C8: transport error and close\<close>

lemma length_closeContext: "length (closeContext c cs) = length cs"
  by (simp add: closeContext_def)

lemma closeContext_closes:
  "c < length cs \<Longrightarrow> ctxState (closeContext c cs ! c) = Closed"
  by (simp add: closeContext_def)

lemma closeContext_stays_closed:
  "i < length cs \<Longrightarrow> ctxState (cs ! i) = Closed \<Longrightarrow> ctxState (closeContext c cs ! i) = Closed"
  by (simp add: closeContext_def nth_list_update)

lemma stopSession_cells:
  "\<not> isActive (stopSession w)" "\<not> isConnecting (stopSession w)"
  "sessionRef (stopSession w) = None" "error (stopSession w) = error w"
  by (simp_all add: stopSession_def Let_def split: option.splits)

lemma stopSession_connection:
  assumes "sessionRef w = Some s" "s < length (sessions w)"
  shows "sessions (stopSession w) ! s = Suc (sessions w ! s)"
  using assms by (simp add: stopSession_def Let_def closeSession_def split: option.splits)

lemma stopSession_contexts:
  assumes "audioContextRef w = Some c \<or> outputAudioContextRef w = Some c" "c < length (contexts w)"
  shows "ctxState (contexts (stopSession w) ! c) = Closed"
  using assms
  by (auto simp: stopSession_def Let_def length_closeContext closeContext_closes
        closeContext_stays_closed split: option.splits)

lemma stopSession_error_update:
  "stopSession (w\<lparr>error := e\<rparr>) = (stopSession w)\<lparr>error := e\<rparr>"
  by (simp add: stopSession_def Let_def split: option.splits)

text \<open>
  C8, as stated, fails for a close: \<^verbatim>\<open>onclose\<close> only runs \<^verbatim>\<open>stopSession\<close>. When the
  connection of an active session closes, no error is recorded: the session is back to
  idle with the error cell empty.
\<close>

theorem onclose_silent:
  "isActive (startSession \<lparr>isKeySelected = True, hasGetUserMedia = True,
      getUserMedia = StreamOk, liveConnect = Opened\<rparr> initial) \<and>
   error (onclose (startSession \<lparr>isKeySelected = True, hasGetUserMedia = True,
      getUserMedia = StreamOk, liveConnect = Opened\<rparr> initial)) = None"
  by (simp add: onclose_def stopSession_cells startSession_opened initial_def)

text \<open>
  C8, amended: on a transport error the handler records the message "Connection lost.
  Please try again." and tears the session down; on a close it tears the session down
  and leaves the error cell as it was. The teardown is that of \<^verbatim>\<open>stopSession\<close>: the session
  is neither active nor connecting, the connection the session reference pointed to has
  received one more \<^verbatim>\<open>close()\<close> and the reference is cleared, and the contexts the two
  context references point to are closed. After either callback \<^verbatim>\<open>startSession\<close> can be
  called again: with a microphone and a service that answer, the session is active and
  the error is cleared.
\<close>

theorem onerror_onclose_teardown:
  "error (onerror w) = Some ''Connection lost. Please try again.'' \<and>
   error (onclose w) = error w \<and>
   \<not> isActive (onerror w) \<and> \<not> isConnecting (onerror w) \<and> sessionRef (onerror w) = None \<and>
   \<not> isActive (onclose w) \<and> \<not> isConnecting (onclose w) \<and> sessionRef (onclose w) = None \<and>
   (\<forall>s. sessionRef w = Some s \<and> s < length (sessions w) \<longrightarrow>
      sessions (onerror w) ! s = Suc (sessions w ! s) \<and>
      sessions (onclose w) ! s = Suc (sessions w ! s)) \<and>
   (\<forall>c. (audioContextRef w = Some c \<or> outputAudioContextRef w = Some c) \<and>
        c < length (contexts w) \<longrightarrow>
      ctxState (contexts (onerror w) ! c) = Closed \<and>
      ctxState (contexts (onclose w) ! c) = Closed) \<and>
   (hasGetUserMedia env \<and> getUserMedia env = StreamOk \<and> liveConnect env = Opened \<longrightarrow>
      isActive (startSession env (onerror w)) \<and> error (startSession env (onerror w)) = None \<and>
      isActive (startSession env (onclose w)) \<and> error (startSession env (onclose w)) = None)"
proof -
  have e: "onerror w = (stopSession w)\<lparr>error := Some ''Connection lost. Please try again.''\<rparr>"
    by (simp add: onerror_def stopSession_error_update)
  have c: "onclose w = stopSession w" by (simp add: onclose_def)
  have conn: "sessions (onerror w) ! s = Suc (sessions w ! s) \<and>
      sessions (onclose w) ! s = Suc (sessions w ! s)"
    if "sessionRef w = Some s" "s < length (sessions w)" for s
    using stopSession_connection [OF that] by (simp add: e c)
  have ctx: "ctxState (contexts (onerror w) ! c) = Closed \<and>
      ctxState (contexts (onclose w) ! c) = Closed"
    if "audioContextRef w = Some c \<or> outputAudioContextRef w = Some c" "c < length (contexts w)" for c
    using stopSession_contexts [OF that] by (simp add: e c)
  have retry: "isActive (startSession env w') \<and> error (startSession env w') = None"
    if "hasGetUserMedia env" "getUserMedia env = StreamOk" "liveConnect env = Opened" for w'
    by (simp add: startSession_opened [OF that])
  show ?thesis
    using conn ctx retry by (simp add: e c stopSession_cells)
qed

theorem onerror_onclose_teardown_witness:
  "error (onerror (startSession \<lparr>isKeySelected = True, hasGetUserMedia = True,
      getUserMedia = StreamOk, liveConnect = Opened\<rparr> initial)) =
     Some ''Connection lost. Please try again.'' \<and>
   sessions (onerror (startSession \<lparr>isKeySelected = True, hasGetUserMedia = True,
      getUserMedia = StreamOk, liveConnect = Opened\<rparr> initial)) ! 0 = 1 \<and>
   ctxState (contexts (onerror (startSession \<lparr>isKeySelected = True, hasGetUserMedia = True,
      getUserMedia = StreamOk, liveConnect = Opened\<rparr> initial)) ! 1) = Closed \<and>
   isActive (startSession \<lparr>isKeySelected = True, hasGetUserMedia = True,
      getUserMedia = StreamOk, liveConnect = Opened\<rparr>
      (onerror (startSession \<lparr>isKeySelected = True, hasGetUserMedia = True,
      getUserMedia = StreamOk, liveConnect = Opened\<rparr> initial)))"
proof -
  let ?env = "\<lparr>isKeySelected = True, hasGetUserMedia = True,
      getUserMedia = StreamOk, liveConnect = Opened\<rparr>"
  let ?w = "startSession ?env initial"
  note th = onerror_onclose_teardown [where w = ?w and env = ?env]
  have refs: "sessionRef ?w = Some 0 \<and> 0 < length (sessions ?w) \<and> sessions ?w ! 0 = 0 \<and>
      outputAudioContextRef ?w = Some 1 \<and> 1 < length (contexts ?w)"
    by (simp add: startSession_opened initial_def)
  from th have s: "\<forall>s. sessionRef ?w = Some s \<and> s < length (sessions ?w) \<longrightarrow>
      sessions (onerror ?w) ! s = Suc (sessions ?w ! s) \<and>
      sessions (onclose ?w) ! s = Suc (sessions ?w ! s)" by (elim conjE)
  from th have c: "\<forall>c. (audioContextRef ?w = Some c \<or> outputAudioContextRef ?w = Some c) \<and>
        c < length (contexts ?w) \<longrightarrow>
      ctxState (contexts (onerror ?w) ! c) = Closed \<and>
      ctxState (contexts (onclose ?w) ! c) = Closed" by (elim conjE)
  from s [rule_format, of 0] refs have s0: "sessions (onerror ?w) ! 0 = 1" by simp
  from c [rule_format, of 1] refs have c1: "ctxState (contexts (onerror ?w) ! 1) = Closed" by simp
  from th s0 c1 show ?thesis by simp
qed

end
